theory Spec2Isabelle
  imports Main "HOL-Library.Multiset" "HOL-Library.Char_ord" "HOL-Library.List_Lexorder"
begin

section \<open>Appointment list: data model\<close>

text \<open>
  The embedding follows \<^verbatim>\<open>src/components/Appointments/AppointmentList.js\<close>.

  An appointment is the object the component reads from the store (the mock records of
  \<^verbatim>\<open>loadAppointments\<close> list its fields). Two fields are held in parsed form:
  \<^item> \<^verbatim>\<open>appointment_date\<close>, the string \<^verbatim>\<open>'YYYY-MM-DD'\<close>, is the day number of that calendar
    date, counted from 1970-01-01 (\<open>days_from_civil\<close> writes a date literal);
  \<^item> \<^verbatim>\<open>appointment_time\<close>, the string \<^verbatim>\<open>'HH:MM'\<close>, is the number of minutes after midnight.

  Malformed date and time strings (for which \<^verbatim>\<open>new Date\<close> is an Invalid Date) are outside
  these types. The fields \<^verbatim>\<open>id\<close>, \<^verbatim>\<open>notes\<close> and \<^verbatim>\<open>filter\<close> are named \<open>id'\<close>, \<open>notes'\<close> and \<open>filter'\<close>:
  \<open>id\<close> and \<open>filter\<close> are constants of HOL and \<open>notes\<close> is a keyword of Isabelle.
\<close>

record appointment =
  id' :: string
  patient_id :: string
  first_name :: string
  last_name :: string
  appointment_date :: int
  appointment_time :: nat
  duration :: nat
  status :: string
  reason :: string
  notes' :: string
  created_at :: string

text \<open>
  The day number of the proleptic Gregorian date \<open>y-m-d\<close> (the day count that
  \<^verbatim>\<open>Date.parse\<close> computes for an ISO date), used to write the dates of the scenarios.
\<close>

definition days_from_civil :: "int \<Rightarrow> int \<Rightarrow> int \<Rightarrow> int" where
  "days_from_civil y m d =
     (let y1 = (if m \<le> 2 then y - 1 else y);
          era = y1 div 400;
          yoe = y1 - era * 400;
          mp = (if m > 2 then m - 3 else m + 9);
          doy = (153 * mp + 2) div 5 + d - 1;
          doe = yoe * 365 + yoe div 4 - yoe div 100 + doy
      in era * 146097 + doe - 719468)"

section \<open>The clock, \<^verbatim>\<open>Date\<close> and date-fns\<close>

text \<open>
  A \<^verbatim>\<open>Date\<close> is its time value: milliseconds since the epoch, an \<open>int\<close>. The component
  reads the system clock (\<^verbatim>\<open>Date.now()\<close>, inside \<^verbatim>\<open>isToday\<close>, \<^verbatim>\<open>isFuture\<close> and \<^verbatim>\<open>isPast\<close>) and
  the local time zone (inside \<^verbatim>\<open>isToday\<close> and in parsing a date-time string). Both are
  made explicit in a \<open>clock\<close>: \<open>now\<close> is the clock reading, one for a whole render pass.
  The zone is its offset in minutes east of UTC (local time is UTC plus the offset), which
  changes with daylight saving, so it is a function of the time, in the two forms of
  ECMAScript's \<^verbatim>\<open>LocalTZA\<close>: \<open>tz_offset\<close> gives the offset in effect at a time value (an
  instant, UTC), and \<open>tz_offset_local\<close> gives the offset the zone applies to a local time
  value (a wall-clock reading; at a skipped or repeated reading, the offset before the
  transition).
\<close>

record clock =
  now :: int
  tz_offset :: "int \<Rightarrow> int"
  tz_offset_local :: "int \<Rightarrow> int"

definition ms_per_minute :: int where
  "ms_per_minute = 60000"

definition ms_per_day :: int where
  "ms_per_day = 86400000"

text \<open>
  \<^verbatim>\<open>new Date(apt.appointment_date)\<close>: ECMAScript reads a date-only ISO string as
  midnight UTC of that date.
\<close>

definition new_Date :: "int \<Rightarrow> int" where
  "new_Date d = d * ms_per_day"

text \<open>
  \<^verbatim>\<open>new Date(`${a.appointment_date}T${a.appointment_time}`)\<close>: ECMAScript reads a date-time
  string with no offset as local time: the time value is the wall-clock reading less the
  offset that the zone applies to that reading.
\<close>

definition local_reading :: "int \<Rightarrow> nat \<Rightarrow> int" where
  "local_reading d t = d * ms_per_day + int t * ms_per_minute"

definition new_Date_local :: "clock \<Rightarrow> int \<Rightarrow> nat \<Rightarrow> int" where
  "new_Date_local c d t =
     local_reading d t - tz_offset_local c (local_reading d t) * ms_per_minute"

text \<open>
  date-fns: \<^verbatim>\<open>isToday(date)\<close> is \<^verbatim>\<open>isSameDay(date, Date.now())\<close>, which compares the two
  instants' local calendar days (\<^verbatim>\<open>startOfDay\<close>, from each instant's own local time);
  \<^verbatim>\<open>isFuture(date)\<close> is
  \<^verbatim>\<open>date > Date.now()\<close> and \<^verbatim>\<open>isPast(date)\<close> is \<^verbatim>\<open>date < Date.now()\<close>, on time values.
\<close>

definition local_day :: "clock \<Rightarrow> int \<Rightarrow> int" where
  "local_day c t = (t + tz_offset c t * ms_per_minute) div ms_per_day"

definition isSameDay :: "clock \<Rightarrow> int \<Rightarrow> int \<Rightarrow> bool" where
  "isSameDay c a b = (local_day c a = local_day c b)"

definition isToday :: "clock \<Rightarrow> int \<Rightarrow> bool" where
  "isToday c t = isSameDay c t (now c)"

definition isFuture :: "clock \<Rightarrow> int \<Rightarrow> bool" where
  "isFuture c t = (now c < t)"

definition isPast :: "clock \<Rightarrow> int \<Rightarrow> bool" where
  "isPast c t = (t < now c)"

section \<open>Filtering and sorting: \<^verbatim>\<open>filterAppointments\<close>\<close>

text \<open>The callbacks of the three temporal branches of the \<^verbatim>\<open>switch\<close> (lines 74-86).\<close>

definition in_today :: "clock \<Rightarrow> appointment \<Rightarrow> bool" where
  "in_today c apt = isToday c (new_Date (appointment_date apt))"

definition in_upcoming :: "clock \<Rightarrow> appointment \<Rightarrow> bool" where
  "in_upcoming c apt =
     (isFuture c (new_Date (appointment_date apt)) \<or> isToday c (new_Date (appointment_date apt)))"

definition in_past :: "clock \<Rightarrow> appointment \<Rightarrow> bool" where
  "in_past c apt =
     (isPast c (new_Date (appointment_date apt)) \<and> \<not> isToday c (new_Date (appointment_date apt)))"

text \<open>
  The \<^verbatim>\<open>switch (filter)\<close> of lines 72-99: the value of \<^verbatim>\<open>filtered\<close> before the sort.
  \<^verbatim>\<open>Array.prototype.filter\<close> keeps the elements in order, in a new array; the
  \<^verbatim>\<open>default\<close> branch leaves \<^verbatim>\<open>filtered\<close> the array \<^verbatim>\<open>appointments\<close> itself.
\<close>

definition select_appointments :: "clock \<Rightarrow> string \<Rightarrow> appointment list \<Rightarrow> appointment list" where
  "select_appointments c k xs =
     (if k = ''today'' then filter (in_today c) xs
      else if k = ''upcoming'' then filter (in_upcoming c) xs
      else if k = ''past'' then filter (in_past c) xs
      else if k = ''scheduled'' then filter (\<lambda>apt. status apt = ''scheduled'') xs
      else if k = ''completed'' then filter (\<lambda>apt. status apt = ''completed'') xs
      else if k = ''cancelled'' then filter (\<lambda>apt. status apt = ''cancelled'') xs
      else xs)"

text \<open>The keys whose branch builds a new array with \<^verbatim>\<open>Array.prototype.filter\<close>.\<close>

definition filtering_keys :: "string list" where
  "filtering_keys = [''today'', ''upcoming'', ''past'', ''scheduled'', ''completed'', ''cancelled'']"

text \<open>The comparator of lines 102-106: \<^verbatim>\<open>dateA - dateB\<close>.\<close>

definition date_time :: "clock \<Rightarrow> appointment \<Rightarrow> int" where
  "date_time c apt = new_Date_local c (appointment_date apt) (appointment_time apt)"

definition compare_appointments :: "clock \<Rightarrow> appointment \<Rightarrow> appointment \<Rightarrow> int" where
  "compare_appointments c a b = date_time c a - date_time c b"

text \<open>
  \<^verbatim>\<open>Array.prototype.sort(comparefn)\<close>: ECMAScript (since 2019) requires a stable sort, and
  the comparator here is consistent, so the result is the one a stable insertion sort
  gives: an element is placed before the first element it does not compare greater than.
\<close>

fun sort_insert :: "('a \<Rightarrow> 'a \<Rightarrow> int) \<Rightarrow> 'a \<Rightarrow> 'a list \<Rightarrow> 'a list" where
  "sort_insert cmp x [] = [x]"
| "sort_insert cmp x (y # ys) =
     (if cmp x y \<le> 0 then x # y # ys else y # sort_insert cmp x ys)"

fun array_sort :: "('a \<Rightarrow> 'a \<Rightarrow> int) \<Rightarrow> 'a list \<Rightarrow> 'a list" where
  "array_sort cmp [] = []"
| "array_sort cmp (x # xs) = sort_insert cmp x (array_sort cmp xs)"

text \<open>
  The component's state (the \<^verbatim>\<open>useState\<close> cells). \<^verbatim>\<open>filterAppointments\<close> sorts
  \<^verbatim>\<open>filtered\<close> in place and stores it in \<^verbatim>\<open>filteredAppointments\<close>. In the \<^verbatim>\<open>default\<close> branch
  \<^verbatim>\<open>filtered\<close> is the array held in \<^verbatim>\<open>appointments\<close>, so the sort reorders that one too.
\<close>

record ui_state =
  appointments :: "appointment list"
  filteredAppointments :: "appointment list"
  loading :: bool
  filter' :: string
  error :: string

definition filterAppointments :: "clock \<Rightarrow> ui_state \<Rightarrow> ui_state" where
  "filterAppointments c s =
     (let filtered = array_sort (compare_appointments c)
                       (select_appointments c (filter' s) (appointments s))
      in s\<lparr>appointments := (if filter' s \<in> set filtering_keys then appointments s else filtered),
           filteredAppointments := filtered\<rparr>)"

text \<open>What the list shows under filter key \<open>k\<close>: the state cell after \<^verbatim>\<open>filterAppointments\<close>.\<close>

definition shown :: "clock \<Rightarrow> string \<Rightarrow> ui_state \<Rightarrow> appointment list" where
  "shown c k s = filteredAppointments (filterAppointments c (s\<lparr>filter' := k\<rparr>))"

section \<open>Status badge and label\<close>

text \<open>
  \<^verbatim>\<open>String.prototype.toUpperCase\<close> on one character, for the ASCII range (the statuses
  are ASCII); \<^verbatim>\<open>status.charAt(0).toUpperCase() + status.slice(1)\<close>.
\<close>

definition toUpperCase :: "char \<Rightarrow> char" where
  "toUpperCase ch =
     (let n = (of_char ch :: nat) in if 97 \<le> n \<and> n \<le> 122 then char_of (n - 32) else ch)"

fun capitalize :: "string \<Rightarrow> string" where
  "capitalize [] = []"
| "capitalize (ch # rest) = toUpperCase ch # rest"

definition getStatusBadgeClass :: "clock \<Rightarrow> string \<Rightarrow> int \<Rightarrow> string" where
  "getStatusBadgeClass c st appointmentDate =
     (let aptDate = new_Date appointmentDate in
      if st = ''completed'' then ''badge-success''
      else if st = ''cancelled'' then ''badge-danger''
      else if isPast c aptDate \<and> \<not> isToday c aptDate \<and> st = ''scheduled'' then ''badge-warning''
      else if isToday c aptDate then ''badge-info''
      else ''badge-secondary'')"

definition getStatusDisplayText :: "clock \<Rightarrow> string \<Rightarrow> int \<Rightarrow> string" where
  "getStatusDisplayText c st appointmentDate =
     (let aptDate = new_Date appointmentDate in
      if st = ''scheduled'' \<and> isPast c aptDate \<and> \<not> isToday c aptDate then ''Missed''
      else capitalize st)"

section \<open>Quick stats\<close>

text \<open>The four counters of lines 339-359, each a \<^verbatim>\<open>filter(...).length\<close> over \<^verbatim>\<open>appointments\<close>.\<close>

definition todayCount :: "clock \<Rightarrow> appointment list \<Rightarrow> nat" where
  "todayCount c xs = length (filter (\<lambda>apt. isToday c (new_Date (appointment_date apt))) xs)"

definition completedCount :: "appointment list \<Rightarrow> nat" where
  "completedCount xs = length (filter (\<lambda>apt. status apt = ''completed'') xs)"

definition missedCount :: "clock \<Rightarrow> appointment list \<Rightarrow> nat" where
  "missedCount c xs =
     length (filter (\<lambda>apt. isPast c (new_Date (appointment_date apt)) \<and>
                          \<not> isToday c (new_Date (appointment_date apt)) \<and>
                          status apt = ''scheduled'') xs)"

definition upcomingScheduledCount :: "clock \<Rightarrow> appointment list \<Rightarrow> nat" where
  "upcomingScheduledCount c xs =
     length (filter (\<lambda>apt. (isFuture c (new_Date (appointment_date apt)) \<or>
                           isToday c (new_Date (appointment_date apt))) \<and>
                          status apt = ''scheduled'') xs)"

section \<open>Loading and changing status\<close>

text \<open>
  \<^verbatim>\<open>window.electronAPI.appointments\<close> is the bridge to the application's store; its code is
  not part of this component, so it is a parameter here: two operations on a store state
  of any type \<open>'db\<close>. A promise that rejects is \<open>None\<close> for \<^verbatim>\<open>getAll\<close> and the flag
  \<open>False\<close> for \<^verbatim>\<open>update\<close>. \<^verbatim>\<open>window.electronAPI\<close> itself is absent (\<open>None\<close>) in web
  development, where the component works on mock data.

  The second argument of \<^verbatim>\<open>update\<close> is the object \<^verbatim>\<open>{...appointment, status: newStatus}\<close>:
  spreading a found appointment copies its fields and then sets \<^verbatim>\<open>status\<close>; spreading
  \<^verbatim>\<open>undefined\<close> (no appointment found) copies nothing, and the object has the one key
  \<^verbatim>\<open>status\<close>.
\<close>

datatype update_data = StatusOnly string | FullRecord appointment

record 'db electron_api =
  getAll :: "'db \<Rightarrow> appointment list option"
  update :: "string \<Rightarrow> update_data \<Rightarrow> 'db \<Rightarrow> bool \<times> 'db"

definition mockAppointments :: "appointment list" where
  "mockAppointments =
     [\<lparr>id' = ''1'', patient_id = ''1'', first_name = ''John'', last_name = ''Doe'',
       appointment_date = days_from_civil 2024 2 20, appointment_time = 9 * 60,
       duration = 30, status = ''scheduled'', reason = ''Annual checkup'', notes' = [],
       created_at = ''2024-02-15T10:30:00Z''\<rparr>,
      \<lparr>id' = ''2'', patient_id = ''2'', first_name = ''Sarah'', last_name = ''Johnson'',
       appointment_date = days_from_civil 2024 2 21, appointment_time = 14 * 60 + 30,
       duration = 45, status = ''scheduled'', reason = ''Follow-up consultation'',
       notes' = ''Follow up on lab results'', created_at = ''2024-02-16T14:20:00Z''\<rparr>]"

definition loadAppointments ::
  "'db electron_api option \<Rightarrow> ui_state \<times> 'db \<Rightarrow> ui_state \<times> 'db" where
  "loadAppointments api w =
     (let s = (fst w)\<lparr>loading := True, error := []\<rparr>; db = snd w in
      case api of
        Some a \<Rightarrow>
          (case getAll a db of
             Some appointmentsData \<Rightarrow> (s\<lparr>appointments := appointmentsData, loading := False\<rparr>, db)
           | None \<Rightarrow>
               (s\<lparr>error := ''Failed to load appointments. Please try again.'',
                  loading := False\<rparr>, db))
      | None \<Rightarrow> (s\<lparr>appointments := mockAppointments, loading := False\<rparr>, db))"

text \<open>The object passed to \<^verbatim>\<open>update\<close> (lines 114-118).\<close>

definition update_argument :: "appointment list \<Rightarrow> string \<Rightarrow> string \<Rightarrow> update_data" where
  "update_argument xs appointmentId newStatus =
     (case find (\<lambda>apt. id' apt = appointmentId) xs of
        None \<Rightarrow> StatusOnly newStatus
      | Some appointment \<Rightarrow> FullRecord (appointment\<lparr>status := newStatus\<rparr>))"

definition handleStatusChange ::
  "'db electron_api option \<Rightarrow> string \<Rightarrow> string \<Rightarrow> ui_state \<times> 'db \<Rightarrow> ui_state \<times> 'db" where
  "handleStatusChange api appointmentId newStatus w =
     (let s = fst w; db = snd w in
      case api of
        Some a \<Rightarrow>
          (case update a appointmentId
                  (update_argument (appointments s) appointmentId newStatus) db of
             (True, db') \<Rightarrow> loadAppointments api (s, db')
           | (False, db') \<Rightarrow> (s\<lparr>error := ''Failed to update appointment status.''\<rparr>, db'))
      | None \<Rightarrow>
          (s\<lparr>appointments :=
               map (\<lambda>apt. if id' apt = appointmentId then apt\<lparr>status := newStatus\<rparr> else apt)
                 (appointments s)\<rparr>, db))"

section \<open>Sample data for the scenarios\<close>

text \<open>The state at mount (the \<^verbatim>\<open>useState\<close> initial values).\<close>

definition initial_state :: ui_state where
  "initial_state =
     \<lparr>appointments = [], filteredAppointments = [], loading = True, filter' = ''all'',
      error = []\<rparr>"

text \<open>
  The clock of a machine in a zone that stays \<open>tz\<close> minutes east of UTC, whose wall clock
  shows day \<open>d\<close>, \<open>t\<close> minutes after midnight.
\<close>

definition wall_clock :: "int \<Rightarrow> int \<Rightarrow> nat \<Rightarrow> clock" where
  "wall_clock tz d t =
     \<lparr>now = d * ms_per_day + int t * ms_per_minute - tz * ms_per_minute,
      tz_offset = (\<lambda>u. tz), tz_offset_local = (\<lambda>l. tz)\<rparr>"

text \<open>
  A clock in New York in 2024, reading the instant \<open>t\<close>: five hours west of UTC, four
  hours west in daylight saving time, which starts on 2024-03-10 at 02:00 local time
  (07:00 UTC; the readings from 02:00 to 03:00 are skipped) and ends on 2024-11-03 at 02:00
  local time (06:00 UTC; the readings from 01:00 to 02:00 repeat).
\<close>

definition new_york_2024 :: "int \<Rightarrow> clock" where
  "new_york_2024 t =
     \<lparr>now = t,
      tz_offset = (\<lambda>u. if days_from_civil 2024 3 10 * ms_per_day + 7 * 60 * ms_per_minute \<le> u \<and>
                           u < days_from_civil 2024 11 3 * ms_per_day + 6 * 60 * ms_per_minute
                        then - 240 else - 300),
      tz_offset_local = (\<lambda>l. if local_reading (days_from_civil 2024 3 10) (3 * 60) \<le> l \<and>
                                 l < local_reading (days_from_civil 2024 11 3) (2 * 60)
                              then - 240 else - 300)\<rparr>"

text \<open>A sample record with the given id, date, time and status.\<close>

definition sample_appointment :: "string \<Rightarrow> int \<Rightarrow> nat \<Rightarrow> string \<Rightarrow> appointment" where
  "sample_appointment i d t st =
     \<lparr>id' = i, patient_id = ''1'', first_name = ''John'', last_name = ''Doe'',
      appointment_date = d, appointment_time = t, duration = 30, status = st,
      reason = ''Annual checkup'', notes' = [], created_at = ''2024-02-15T10:30:00Z''\<rparr>"

definition sample_state :: "appointment list \<Rightarrow> ui_state" where
  "sample_state xs = initial_state\<lparr>appointments := xs, loading := False\<rparr>"

text \<open>
  Modelled from the spec: a store to put in the place of \<^verbatim>\<open>window.electronAPI.appointments\<close>,
  whose code is not part of the component. It follows section 6 of the specification: the
  store holds the list of records, \<^verbatim>\<open>getAll\<close> returns it, and \<^verbatim>\<open>update\<close> fails on an id it
  does not hold and otherwise puts the given data in the place of the record with that id.
  It serves as sample data only: the theorems are stated for every store.
\<close>

definition memory_store :: "(appointment list) electron_api" where
  "memory_store =
     \<lparr>getAll = (\<lambda>db. Some db),
      update = (\<lambda>i data db.
        if i \<in> id' ` set db
        then (True, map (\<lambda>apt. if id' apt = i
                                 then (case data of
                                         StatusOnly st \<Rightarrow> apt\<lparr>status := st\<rparr>
                                       | FullRecord r \<Rightarrow> r)
                                 else apt) db)
        else (False, db))\<rparr>"

section \<open>Properties of the sort and of the selection\<close>

lemma mset_sort_insert: "mset (sort_insert cmp x xs) = add_mset x (mset xs)"
  by (induction xs) simp_all

lemma mset_array_sort: "mset (array_sort cmp xs) = mset xs"
  by (induction xs) (simp_all add: mset_sort_insert)

lemma set_array_sort: "set (array_sort cmp xs) = set xs"
  by (metis mset_array_sort set_mset_mset)

lemma sort_insert_key: "sort_insert (\<lambda>a b. f a - f b) x xs = insort_key f x xs"
  by (induction xs) simp_all

lemma array_sort_key: "array_sort (\<lambda>a b. f a - f b) xs = sort_key f xs"
  by (induction xs) (simp_all add: sort_insert_key)

lemma compare_appointments_key:
  "compare_appointments c = (\<lambda>a b. date_time c a - date_time c b)"
  by (intro ext) (simp add: compare_appointments_def)

lemma shown_eq:
  "shown c k s = array_sort (compare_appointments c) (select_appointments c k (appointments s))"
  by (simp add: shown_def filterAppointments_def Let_def)

lemma mset_shown: "mset (shown c k s) = mset (select_appointments c k (appointments s))"
  by (simp add: shown_eq mset_array_sort)

lemma select_unknown:
  "k \<notin> set filtering_keys \<Longrightarrow> select_appointments c k xs = xs"
  by (simp add: select_appointments_def filtering_keys_def)

text \<open>
  The sort follows the zone's offset at each date. In New York on 2024-03-10 the reading
  02:30 is skipped and stands for 03:30 (07:30 UTC), later than 03:15 (07:15 UTC): of two
  appointments of that date, the one at 03:15 is shown before the one at 02:30.
\<close>

lemma sort_across_skipped_hour:
  "shown (new_york_2024 t) ''all''
     (sample_state [sample_appointment ''1'' (days_from_civil 2024 3 10) (2 * 60 + 30) ''scheduled'',
                    sample_appointment ''2'' (days_from_civil 2024 3 10) (3 * 60 + 15) ''scheduled'']) =
     [sample_appointment ''2'' (days_from_civil 2024 3 10) (3 * 60 + 15) ''scheduled'',
      sample_appointment ''1'' (days_from_civil 2024 3 10) (2 * 60 + 30) ''scheduled'']"
  by (simp add: shown_eq select_appointments_def sample_state_def initial_state_def
      sample_appointment_def compare_appointments_def date_time_def new_Date_local_def
      new_york_2024_def local_reading_def days_from_civil_def ms_per_day_def ms_per_minute_def)

text \<open>
  What the \<open>today\<close> filter shows is contained in what the \<open>upcoming\<close> filter shows, for
  every collection and clock.
\<close>

lemma today_subset_upcoming:
  "mset (shown c ''today'' s) \<subseteq># mset (shown c ''upcoming'' s) \<and>
   set (shown c ''today'' s) \<subseteq> set (shown c ''upcoming'' s)"
proof -
  have imp: "in_today c x \<Longrightarrow> in_upcoming c x" for x
    by (simp add: in_today_def in_upcoming_def)
  have today: "mset (shown c ''today'' s) = filter_mset (in_today c) (mset (appointments s))"
    by (simp add: mset_shown select_appointments_def)
  have upcoming: "mset (shown c ''upcoming'' s) = filter_mset (in_upcoming c) (mset (appointments s))"
    by (simp add: mset_shown select_appointments_def)
  have sub: "mset (shown c ''today'' s) \<subseteq># mset (shown c ''upcoming'' s)"
    unfolding today upcoming by (rule filter_mset_mono_strong) (simp_all add: imp)
  then have "set_mset (mset (shown c ''today'' s)) \<subseteq> set_mset (mset (shown c ''upcoming'' s))"
    by (rule set_mset_mono)
  with sub show ?thesis by simp
qed

section \<open>The calendar day of a date-only \<^verbatim>\<open>Date\<close>\<close>

text \<open>
  Every instant lies within its local day. In a zone at or east of UTC (offset from 0 up
  to, not including, 24 hours) midnight UTC of a date falls on that same local date, and
  the three temporal predicates of the filter agree with the comparison of calendar dates.
  In any zone, a date five days before the current local date is past and not today.
\<close>

lemma local_day_bounds:
  "local_day c t * ms_per_day \<le> t + tz_offset c t * ms_per_minute \<and>
   t + tz_offset c t * ms_per_minute < (local_day c t + 1) * ms_per_day"
proof -
  define u where "u = t + tz_offset c t * ms_per_minute"
  define q where "q = u div ms_per_day"
  define r where "r = u mod ms_per_day"
  have pos: "0 < ms_per_day" by (simp add: ms_per_day_def)
  have eq: "q * ms_per_day + r = u"
    unfolding q_def r_def by (rule div_mult_mod_eq)
  have r: "0 \<le> r" "r < ms_per_day"
    unfolding r_def using pos by simp_all
  have step: "(q + 1) * ms_per_day = q * ms_per_day + ms_per_day"
    by (simp add: distrib_right)
  have "q * ms_per_day \<le> u \<and> u < (q + 1) * ms_per_day"
    using eq r step by linarith
  then show ?thesis
    by (simp add: local_day_def q_def u_def)
qed

lemma local_day_new_Date_east:
  assumes "0 \<le> tz_offset c (new_Date d)" "tz_offset c (new_Date d) < 1440"
  shows "local_day c (new_Date d) = d"
proof -
  let ?z = "tz_offset c (d * ms_per_day) * ms_per_minute"
  have "0 \<le> ?z" "?z < ms_per_day"
    using assms by (simp_all add: new_Date_def ms_per_minute_def ms_per_day_def)
  then have "(d * ms_per_day + ?z) div ms_per_day = d"
    by (simp add: ms_per_day_def div_pos_pos_trivial)
  then show ?thesis by (simp add: local_day_def new_Date_def)
qed

lemma classifier_east_of_utc:
  assumes "0 \<le> tz_offset c (new_Date (appointment_date apt))"
    "tz_offset c (new_Date (appointment_date apt)) < 1440"
    "0 \<le> tz_offset c (now c)" "tz_offset c (now c) < 1440"
  shows "(appointment_date apt < local_day c (now c) \<longrightarrow>
            in_past c apt \<and> \<not> in_today c apt \<and> \<not> in_upcoming c apt) \<and>
         (appointment_date apt = local_day c (now c) \<longrightarrow>
            in_today c apt \<and> in_upcoming c apt \<and> \<not> in_past c apt) \<and>
         (local_day c (now c) < appointment_date apt \<longrightarrow>
            in_upcoming c apt \<and> \<not> in_today c apt \<and> \<not> in_past c apt)"
proof -
  let ?d = "appointment_date apt" and ?n = "local_day c (now c)"
  let ?z = "tz_offset c (now c) * ms_per_minute"
  have tz: "0 \<le> ?z" "?z < ms_per_day"
    using assms(3,4) by (simp_all add: ms_per_minute_def ms_per_day_def)
  have today: "isToday c (new_Date ?d) \<longleftrightarrow> ?d = ?n"
    by (simp add: isToday_def isSameDay_def local_day_new_Date_east [OF assms(1,2)])
  have b: "?n * ms_per_day \<le> now c + ?z" "now c + ?z < (?n + 1) * ms_per_day"
    using local_day_bounds [of c "now c"] by simp_all
  have past: "isPast c (new_Date ?d)" if "?d < ?n"
  proof -
    have "?d + 1 \<le> ?n" using that by simp
    then have "(?d + 1) * ms_per_day \<le> ?n * ms_per_day"
      by (simp add: ms_per_day_def)
    then show ?thesis using b tz by (simp add: isPast_def new_Date_def algebra_simps)
  qed
  have future: "isFuture c (new_Date ?d)" if "?n < ?d"
  proof -
    have "?n + 1 \<le> ?d" using that by simp
    then have "(?n + 1) * ms_per_day \<le> ?d * ms_per_day"
      by (simp add: ms_per_day_def)
    then show ?thesis using b tz by (simp add: isFuture_def new_Date_def algebra_simps)
  qed
  have not_both: "\<not> (isPast c t \<and> isFuture c t)" for t
    by (simp add: isPast_def isFuture_def)
  show ?thesis
    unfolding in_past_def in_today_def in_upcoming_def
    using today past future not_both by (auto simp: isPast_def isFuture_def)
qed

lemma dated_today_east_of_utc:
  assumes "0 \<le> tz_offset c (new_Date (appointment_date apt))"
    "tz_offset c (new_Date (appointment_date apt)) < 1440"
    "0 \<le> tz_offset c (now c)" "tz_offset c (now c) < 1440"
    and dated: "appointment_date apt = local_day c (now c)"
    and mem: "apt \<in> set (appointments s)"
  shows "apt \<in> set (shown c ''today'' s) \<and> apt \<in> set (shown c ''upcoming'' s)"
proof -
  have "in_today c apt \<and> in_upcoming c apt"
    using classifier_east_of_utc [OF assms(1-4)] dated by simp
  then show ?thesis
    using mem by (simp add: shown_eq set_array_sort select_appointments_def)
qed

lemma past_on_later_day:
  assumes n: "local_day c (now c) = d + 5"
    and tz: "tz_offset c (now c) < 1440" "tz_offset c (new_Date d) < 1440"
  shows "isPast c (new_Date d) \<and> \<not> isToday c (new_Date d)"
proof -
  let ?z = "tz_offset c (now c) * ms_per_minute"
  let ?y = "tz_offset c (d * ms_per_day) * ms_per_minute"
  have z: "?z < ms_per_day" "?y < ms_per_day"
    using tz by (simp_all add: new_Date_def ms_per_minute_def ms_per_day_def)
  have b: "(d + 5) * ms_per_day \<le> now c + ?z"
    using local_day_bounds [of c "now c"] n by simp
  have e: "(d + 5) * ms_per_day = d * ms_per_day + 5 * ms_per_day"
    by (simp add: distrib_right)
  have past: "d * ms_per_day < now c"
    using b e z by (simp add: ms_per_day_def)
  have a: "local_day c (new_Date d) * ms_per_day \<le> d * ms_per_day + ?y"
    using local_day_bounds [of c "new_Date d"] by (simp add: new_Date_def)
  have "local_day c (new_Date d) * ms_per_day < (d + 5) * ms_per_day"
    using a e z by (simp add: ms_per_day_def)
  then have "local_day c (new_Date d) < d + 5"
    by (simp add: ms_per_day_def)
  then show ?thesis
    using past n by (simp add: isPast_def isToday_def isSameDay_def new_Date_def)
qed

section \<open>Labels and absent ids\<close>

lemma capitalize_completed: "capitalize ''completed'' = ''Completed''"
  by code_simp

lemma capitalize_cancelled: "capitalize ''cancelled'' = ''Cancelled''"
  by code_simp

lemma find_absent:
  "appointmentId \<notin> id' ` set xs \<Longrightarrow> find (\<lambda>apt. id' apt = appointmentId) xs = None"
  by (auto simp: find_None_iff)

lemma map_status_absent:
  "appointmentId \<notin> id' ` set xs \<Longrightarrow>
     map (\<lambda>apt. if id' apt = appointmentId then apt\<lparr>status := newStatus\<rparr> else apt) xs = xs"
  by (induction xs) auto

section \<open>The claims\<close>

text \<open>
  C1. The claim: for every appointment and every current instant, an appointment dated
  strictly before the current calendar date is classified Past, one dated the current
  date Today, and one dated strictly after Upcoming.

  The component classifies with \<^verbatim>\<open>new Date(apt.appointment_date)\<close>, which is midnight UTC
  of the date, while \<^verbatim>\<open>isToday\<close> compares local calendar days. West of UTC that instant
  lies on the previous local day. Evaluated here: the wall clock shows 2024-02-20 12:00
  in a zone five hours west of UTC (offset \<open>-300\<close>), and the appointment is dated
  2024-02-20. The appointment's date is the current date, and the predicates of the
  filter put it in Past, not in Today and not in Upcoming: the \<open>past\<close> filter shows it and
  the \<open>today\<close> filter shows nothing.
  (\<open>classifier_east_of_utc\<close> above is the claim for the zones at or east of UTC.)
\<close>

theorem classifier_today_west_of_utc:
  "local_day (wall_clock (- 300) (days_from_civil 2024 2 20) (12 * 60))
      (now (wall_clock (- 300) (days_from_civil 2024 2 20) (12 * 60))) =
     appointment_date (sample_appointment ''1'' (days_from_civil 2024 2 20) (9 * 60) ''scheduled'') \<and>
   in_past (wall_clock (- 300) (days_from_civil 2024 2 20) (12 * 60))
     (sample_appointment ''1'' (days_from_civil 2024 2 20) (9 * 60) ''scheduled'') \<and>
   \<not> in_today (wall_clock (- 300) (days_from_civil 2024 2 20) (12 * 60))
     (sample_appointment ''1'' (days_from_civil 2024 2 20) (9 * 60) ''scheduled'') \<and>
   \<not> in_upcoming (wall_clock (- 300) (days_from_civil 2024 2 20) (12 * 60))
     (sample_appointment ''1'' (days_from_civil 2024 2 20) (9 * 60) ''scheduled'') \<and>
   shown (wall_clock (- 300) (days_from_civil 2024 2 20) (12 * 60)) ''past''
       (sample_state [sample_appointment ''1'' (days_from_civil 2024 2 20) (9 * 60) ''scheduled'']) =
     [sample_appointment ''1'' (days_from_civil 2024 2 20) (9 * 60) ''scheduled''] \<and>
   shown (wall_clock (- 300) (days_from_civil 2024 2 20) (12 * 60)) ''today''
       (sample_state [sample_appointment ''1'' (days_from_civil 2024 2 20) (9 * 60) ''scheduled'']) =
     []"
proof -
  let ?c = "wall_clock (- 300) (days_from_civil 2024 2 20) (12 * 60)"
  let ?a = "sample_appointment ''1'' (days_from_civil 2024 2 20) (9 * 60) ''scheduled''"
  have day: "local_day ?c (now ?c) = appointment_date ?a"
    by (simp add: wall_clock_def sample_appointment_def days_from_civil_def local_day_def
        ms_per_day_def ms_per_minute_def)
  have today: "\<not> in_today ?c ?a"
    by (simp add: wall_clock_def sample_appointment_def days_from_civil_def in_today_def
        isToday_def isSameDay_def local_day_def new_Date_def ms_per_day_def ms_per_minute_def)
  have past: "in_past ?c ?a"
    by (simp add: wall_clock_def sample_appointment_def days_from_civil_def in_past_def
        isToday_def isSameDay_def isPast_def local_day_def new_Date_def ms_per_day_def
        ms_per_minute_def)
  have upcoming: "\<not> in_upcoming ?c ?a"
    by (simp add: wall_clock_def sample_appointment_def days_from_civil_def in_upcoming_def
        isToday_def isSameDay_def isFuture_def local_day_def new_Date_def ms_per_day_def
        ms_per_minute_def)
  have shown_past: "shown ?c ''past'' (sample_state [?a]) = [?a]"
    using past by (simp add: shown_eq select_appointments_def sample_state_def)
  have shown_today: "shown ?c ''today'' (sample_state [?a]) = []"
    using today by (simp add: shown_eq select_appointments_def sample_state_def)
  from day past today upcoming shown_past shown_today show ?thesis
    by simp
qed

text \<open>
  C2. The badge class and the label follow the rules in priority order, for every clock
  and date: status \<open>completed\<close> gives \<open>badge-success\<close> (severity success) and the label
  \<open>Completed\<close>; status \<open>cancelled\<close> gives \<open>badge-danger\<close> and \<open>Cancelled\<close>, both whatever the
  date; a \<open>scheduled\<close> appointment that the filter puts in Past gives \<open>badge-warning\<close> and
  \<open>Missed\<close>. Scenario A: whenever the clock's local date is 2024-02-25 (in any zone
  whose offset, now and at midnight UTC of 2024-02-20, is less than a day from UTC), a \<open>scheduled\<close> appointment dated 2024-02-20 at 09:00 is in Past,
  with \<open>badge-warning\<close> and \<open>Missed\<close>.
\<close>

theorem status_rules_priority:
  "getStatusBadgeClass c ''completed'' d = ''badge-success'' \<and>
   getStatusDisplayText c ''completed'' d = ''Completed'' \<and>
   getStatusBadgeClass c ''cancelled'' d = ''badge-danger'' \<and>
   getStatusDisplayText c ''cancelled'' d = ''Cancelled'' \<and>
   (in_past c apt \<and> status apt = ''scheduled'' \<longrightarrow>
      getStatusBadgeClass c (status apt) (appointment_date apt) = ''badge-warning'' \<and>
      getStatusDisplayText c (status apt) (appointment_date apt) = ''Missed'') \<and>
   (local_day c (now c) = days_from_civil 2024 2 25 \<and>
    - 1440 < tz_offset c (now c) \<and> tz_offset c (now c) < 1440 \<and>
    - 1440 < tz_offset c (new_Date (days_from_civil 2024 2 20)) \<and>
    tz_offset c (new_Date (days_from_civil 2024 2 20)) < 1440 \<longrightarrow>
      in_past c (sample_appointment i (days_from_civil 2024 2 20) (9 * 60) ''scheduled'') \<and>
      getStatusBadgeClass c ''scheduled'' (days_from_civil 2024 2 20) = ''badge-warning'' \<and>
      getStatusDisplayText c ''scheduled'' (days_from_civil 2024 2 20) = ''Missed'')"
proof -
  have completed: "getStatusBadgeClass c ''completed'' d = ''badge-success'' \<and>
      getStatusDisplayText c ''completed'' d = ''Completed''"
    by (simp add: getStatusBadgeClass_def getStatusDisplayText_def capitalize_completed
        del: capitalize.simps)
  have cancelled: "getStatusBadgeClass c ''cancelled'' d = ''badge-danger'' \<and>
      getStatusDisplayText c ''cancelled'' d = ''Cancelled''"
    by (simp add: getStatusBadgeClass_def getStatusDisplayText_def capitalize_cancelled
        del: capitalize.simps)
  have missed: "getStatusBadgeClass c ''scheduled'' e = ''badge-warning'' \<and>
      getStatusDisplayText c ''scheduled'' e = ''Missed''"
    if "isPast c (new_Date e) \<and> \<not> isToday c (new_Date e)" for e
    using that by (simp add: getStatusBadgeClass_def getStatusDisplayText_def)
  have rule3: "in_past c apt \<and> status apt = ''scheduled'' \<longrightarrow>
      getStatusBadgeClass c (status apt) (appointment_date apt) = ''badge-warning'' \<and>
      getStatusDisplayText c (status apt) (appointment_date apt) = ''Missed''"
    using missed [of "appointment_date apt"] by (auto simp: in_past_def)
  have days: "days_from_civil 2024 2 25 = days_from_civil 2024 2 20 + 5"
    by (simp add: days_from_civil_def)
  have scenario: "local_day c (now c) = days_from_civil 2024 2 25 \<and>
      - 1440 < tz_offset c (now c) \<and> tz_offset c (now c) < 1440 \<and>
    - 1440 < tz_offset c (new_Date (days_from_civil 2024 2 20)) \<and>
    tz_offset c (new_Date (days_from_civil 2024 2 20)) < 1440 \<longrightarrow>
      in_past c (sample_appointment i (days_from_civil 2024 2 20) (9 * 60) ''scheduled'') \<and>
      getStatusBadgeClass c ''scheduled'' (days_from_civil 2024 2 20) = ''badge-warning'' \<and>
      getStatusDisplayText c ''scheduled'' (days_from_civil 2024 2 20) = ''Missed''"
  proof (intro impI)
    assume h: "local_day c (now c) = days_from_civil 2024 2 25 \<and>
      - 1440 < tz_offset c (now c) \<and> tz_offset c (now c) < 1440 \<and>
    - 1440 < tz_offset c (new_Date (days_from_civil 2024 2 20)) \<and>
    tz_offset c (new_Date (days_from_civil 2024 2 20)) < 1440"
    then have p: "isPast c (new_Date (days_from_civil 2024 2 20)) \<and>
        \<not> isToday c (new_Date (days_from_civil 2024 2 20))"
      using past_on_later_day [of c "days_from_civil 2024 2 20"] days by simp
    then show "in_past c (sample_appointment i (days_from_civil 2024 2 20) (9 * 60) ''scheduled'') \<and>
      getStatusBadgeClass c ''scheduled'' (days_from_civil 2024 2 20) = ''badge-warning'' \<and>
      getStatusDisplayText c ''scheduled'' (days_from_civil 2024 2 20) = ''Missed''"
      using missed [OF p] by (simp add: in_past_def sample_appointment_def)
  qed
  from completed cancelled rule3 scenario show ?thesis by blast
qed

text \<open>
  The rules of C2 at a concrete clock: 2024-02-25 10:00 in UTC, the appointment of
  scenario A.
\<close>

theorem status_rules_priority_witness:
  "in_past (wall_clock 0 (days_from_civil 2024 2 25) (10 * 60))
     (sample_appointment ''1'' (days_from_civil 2024 2 20) (9 * 60) ''scheduled'') \<and>
   status (sample_appointment ''1'' (days_from_civil 2024 2 20) (9 * 60) ''scheduled'') = ''scheduled'' \<and>
   local_day (wall_clock 0 (days_from_civil 2024 2 25) (10 * 60))
     (now (wall_clock 0 (days_from_civil 2024 2 25) (10 * 60))) = days_from_civil 2024 2 25 \<and>
   - 1440 < tz_offset (wall_clock 0 (days_from_civil 2024 2 25) (10 * 60))
       (now (wall_clock 0 (days_from_civil 2024 2 25) (10 * 60))) \<and>
   tz_offset (wall_clock 0 (days_from_civil 2024 2 25) (10 * 60))
       (now (wall_clock 0 (days_from_civil 2024 2 25) (10 * 60))) < 1440 \<and>
   - 1440 < tz_offset (wall_clock 0 (days_from_civil 2024 2 25) (10 * 60))
       (new_Date (days_from_civil 2024 2 20)) \<and>
   tz_offset (wall_clock 0 (days_from_civil 2024 2 25) (10 * 60))
       (new_Date (days_from_civil 2024 2 20)) < 1440 \<and>
   getStatusBadgeClass (wall_clock 0 (days_from_civil 2024 2 25) (10 * 60)) ''scheduled''
     (days_from_civil 2024 2 20) = ''badge-warning'' \<and>
   getStatusDisplayText (wall_clock 0 (days_from_civil 2024 2 25) (10 * 60)) ''scheduled''
     (days_from_civil 2024 2 20) = ''Missed''"
proof -
  let ?c = "wall_clock 0 (days_from_civil 2024 2 25) (10 * 60)"
  have day: "local_day ?c (now ?c) = days_from_civil 2024 2 25"
    by (simp add: wall_clock_def local_day_def days_from_civil_def ms_per_day_def ms_per_minute_def)
  have tz: "- 1440 < tz_offset ?c t" "tz_offset ?c t < 1440" for t
    by (simp_all add: wall_clock_def)
  show ?thesis
    using status_rules_priority [of ?c _ "sample_appointment ''1'' (days_from_civil 2024 2 20) (9 * 60) ''scheduled''" "''1''"] day tz
    by (simp add: sample_appointment_def)
qed

text \<open>
  C3. The claim: the sort orders a collection ascending by the combined date and time,
  breaks ties by ascending id, and puts 09:00 before 14:30 on the same date.

  The comparator is \<^verbatim>\<open>dateA - dateB\<close> and nothing else: it is \<open>0\<close> on equal instants, and
  the stable sort then keeps the order in which the two records came. As amended and
  proved here, for every zone: the result is ascending by the combined instant (the time
  value of the local date and time, under the zone's offset at that date); it is a
  rearrangement of the input; the records of any one instant \<open>t\<close> keep their input order;
  and of two records of one date, the one at 09:00 comes before the one at 14:30,
  provided the zone's offset at 14:30 of that date is less than five and a half hours
  ahead of its offset at 09:00.
\<close>

theorem sort_by_date_time_stable:
  "sorted (map (date_time c) (array_sort (compare_appointments c) xs)) \<and>
   mset (array_sort (compare_appointments c) xs) = mset xs \<and>
   filter (\<lambda>a. date_time c a = t) (array_sort (compare_appointments c) xs) =
     filter (\<lambda>a. date_time c a = t) xs \<and>
   (tz_offset_local c (local_reading (appointment_date a) (14 * 60 + 30)) -
      tz_offset_local c (local_reading (appointment_date a) (9 * 60)) < 330 \<longrightarrow>
    array_sort (compare_appointments c)
      [a\<lparr>appointment_time := 14 * 60 + 30\<rparr>, a\<lparr>appointment_time := 9 * 60\<rparr>] =
      [a\<lparr>appointment_time := 9 * 60\<rparr>, a\<lparr>appointment_time := 14 * 60 + 30\<rparr>])"
proof -
  have key: "array_sort (compare_appointments c) xs = sort_key (date_time c) xs" for xs
    by (simp add: compare_appointments_key array_sort_key)
  have ascending: "sorted (map (date_time c) (sort_key (date_time c) xs))"
    by (rule sorted_sort_key)
  have permuted: "mset (sort_key (date_time c) xs) = mset xs"
    by simp
  have stable: "filter (\<lambda>a. date_time c a = t) (sort_key (date_time c) xs) =
      filter (\<lambda>a. date_time c a = t) xs"
    by (rule sort_key_stable)
  have scenario: "array_sort (compare_appointments c)
      [a\<lparr>appointment_time := 14 * 60 + 30\<rparr>, a\<lparr>appointment_time := 9 * 60\<rparr>] =
      [a\<lparr>appointment_time := 9 * 60\<rparr>, a\<lparr>appointment_time := 14 * 60 + 30\<rparr>]"
    if "tz_offset_local c (local_reading (appointment_date a) (14 * 60 + 30)) -
      tz_offset_local c (local_reading (appointment_date a) (9 * 60)) < 330"
  proof -
    define late where "late = tz_offset_local c (local_reading (appointment_date a) (14 * 60 + 30))"
    define early where "early = tz_offset_local c (local_reading (appointment_date a) (9 * 60))"
    have "late - early < 330"
      using that by (simp add: late_def early_def)
    then have "late * ms_per_minute < early * ms_per_minute + 330 * ms_per_minute"
      by (simp add: ms_per_minute_def)
    moreover have "local_reading (appointment_date a) (14 * 60 + 30) =
        local_reading (appointment_date a) (9 * 60) + 330 * ms_per_minute"
      by (simp add: local_reading_def)
    ultimately have "0 < compare_appointments c (a\<lparr>appointment_time := 14 * 60 + 30\<rparr>)
        (a\<lparr>appointment_time := 9 * 60\<rparr>)"
      by (simp add: compare_appointments_def date_time_def new_Date_local_def late_def early_def)
    then show ?thesis by simp
  qed
  from ascending permuted stable scenario show ?thesis
    by (simp only: key) blast
qed

text \<open>
  The scenario of C3 on 2024-03-10 in New York, the day daylight saving time starts: the
  zone's offset is the same at 09:00 and at 14:30.
\<close>

theorem sort_by_date_time_stable_witness:
  "tz_offset_local (new_york_2024 0) (local_reading (days_from_civil 2024 3 10) (14 * 60 + 30)) -
     tz_offset_local (new_york_2024 0) (local_reading (days_from_civil 2024 3 10) (9 * 60)) < 330 \<and>
   array_sort (compare_appointments (new_york_2024 0))
     [sample_appointment ''1'' (days_from_civil 2024 3 10) (14 * 60 + 30) ''scheduled'',
      sample_appointment ''1'' (days_from_civil 2024 3 10) (9 * 60) ''scheduled''] =
     [sample_appointment ''1'' (days_from_civil 2024 3 10) (9 * 60) ''scheduled'',
      sample_appointment ''1'' (days_from_civil 2024 3 10) (14 * 60 + 30) ''scheduled'']"
proof -
  let ?a = "sample_appointment ''1'' (days_from_civil 2024 3 10) 0 ''scheduled''"
  have bound: "tz_offset_local (new_york_2024 0)
        (local_reading (days_from_civil 2024 3 10) (14 * 60 + 30)) -
      tz_offset_local (new_york_2024 0) (local_reading (days_from_civil 2024 3 10) (9 * 60)) < 330"
    by (simp add: new_york_2024_def local_reading_def days_from_civil_def ms_per_day_def
        ms_per_minute_def)
  have date: "appointment_date ?a = days_from_civil 2024 3 10"
    by (simp add: sample_appointment_def)
  have late: "?a\<lparr>appointment_time := 14 * 60 + 30\<rparr> =
      sample_appointment ''1'' (days_from_civil 2024 3 10) (14 * 60 + 30) ''scheduled''"
    by (simp add: sample_appointment_def)
  have early: "?a\<lparr>appointment_time := 9 * 60\<rparr> =
      sample_appointment ''1'' (days_from_civil 2024 3 10) (9 * 60) ''scheduled''"
    by (simp add: sample_appointment_def)
  show ?thesis
    using sort_by_date_time_stable [of "new_york_2024 0" _ _ ?a] bound
    unfolding date late early by blast
qed

text \<open>
  The tie-break by id of C3 fails: two appointments at the same date and time, the one
  with id \<open>2\<close> first in the collection, are shown in that order, although \<open>1\<close> is the
  smaller id.
\<close>

theorem sort_tie_break_counterexample:
  "shown (wall_clock 0 (days_from_civil 2024 2 25) 0) ''all''
     (sample_state [sample_appointment ''2'' (days_from_civil 2024 2 20) (9 * 60) ''scheduled'',
                    sample_appointment ''1'' (days_from_civil 2024 2 20) (9 * 60) ''scheduled'']) =
     [sample_appointment ''2'' (days_from_civil 2024 2 20) (9 * 60) ''scheduled'',
      sample_appointment ''1'' (days_from_civil 2024 2 20) (9 * 60) ''scheduled''] \<and>
   date_time (wall_clock 0 (days_from_civil 2024 2 25) 0)
       (sample_appointment ''2'' (days_from_civil 2024 2 20) (9 * 60) ''scheduled'') =
     date_time (wall_clock 0 (days_from_civil 2024 2 25) 0)
       (sample_appointment ''1'' (days_from_civil 2024 2 20) (9 * 60) ''scheduled'') \<and>
   id' (sample_appointment ''1'' (days_from_civil 2024 2 20) (9 * 60) ''scheduled'') <
     id' (sample_appointment ''2'' (days_from_civil 2024 2 20) (9 * 60) ''scheduled'')"
  by (simp add: shown_eq select_appointments_def sample_state_def initial_state_def
      sample_appointment_def compare_appointments_def date_time_def)

text \<open>
  C4. The claim: a status change for an id that is absent from the current snapshot fails
  with NotFound and leaves the collection unchanged.

  \<^verbatim>\<open>handleStatusChange\<close> never checks that the id exists. As amended and proved here, for
  an absent id: on mock data (no store) the state after the call is the state before it,
  collection and error message alike; with a store, the component sends \<^verbatim>\<open>update\<close> an
  object that holds the new status only, and then, if that call fails, it keeps the
  collection and sets the error message \<open>Failed to update appointment status.\<close>, and if
  the call succeeds, it reloads the collection from the store.
\<close>

theorem status_change_absent_id:
  "appointmentId \<notin> id' ` set (appointments s) \<Longrightarrow>
     handleStatusChange None appointmentId newStatus (s, db) = (s, db) \<and>
     update_argument (appointments s) appointmentId newStatus = StatusOnly newStatus \<and>
     (\<not> fst (update a appointmentId (StatusOnly newStatus) db') \<longrightarrow>
        appointments (fst (handleStatusChange (Some a) appointmentId newStatus (s, db'))) =
          appointments s \<and>
        error (fst (handleStatusChange (Some a) appointmentId newStatus (s, db'))) =
          ''Failed to update appointment status.'') \<and>
     (fst (update a appointmentId (StatusOnly newStatus) db') \<longrightarrow>
        handleStatusChange (Some a) appointmentId newStatus (s, db') =
          loadAppointments (Some a)
            (s, snd (update a appointmentId (StatusOnly newStatus) db')))"
proof -
  assume absent: "appointmentId \<notin> id' ` set (appointments s)"
  have mock: "handleStatusChange None appointmentId newStatus (s, db) = (s, db)"
    by (simp add: handleStatusChange_def map_status_absent [OF absent])
  have arg: "update_argument (appointments s) appointmentId newStatus = StatusOnly newStatus"
    by (simp add: update_argument_def find_absent [OF absent])
  obtain ok db2 where u: "update a appointmentId (StatusOnly newStatus) db' = (ok, db2)"
    by (cases "update a appointmentId (StatusOnly newStatus) db'")
  have backend: "handleStatusChange (Some a) appointmentId newStatus (s, db') =
      (if ok then loadAppointments (Some a) (s, db2)
       else (s\<lparr>error := ''Failed to update appointment status.''\<rparr>, db2))"
    by (simp add: handleStatusChange_def arg u)
  show ?thesis
    using mock arg by (simp add: backend u)
qed

text \<open>
  The statement of C4 at id \<open>99\<close> on the two mock records: unchanged on mock data, and
  reported as a failure with the sample store, which rejects an id it does not hold.
\<close>

theorem status_change_absent_id_witness:
  "''99'' \<notin> id' ` set (appointments (sample_state mockAppointments)) \<and>
   handleStatusChange None ''99'' ''completed'' (sample_state mockAppointments, ()) =
     (sample_state mockAppointments, ()) \<and>
   \<not> fst (update memory_store ''99'' (StatusOnly ''completed'') mockAppointments) \<and>
   appointments (fst (handleStatusChange (Some memory_store) ''99'' ''completed''
       (sample_state mockAppointments, mockAppointments))) = mockAppointments \<and>
   error (fst (handleStatusChange (Some memory_store) ''99'' ''completed''
       (sample_state mockAppointments, mockAppointments))) = ''Failed to update appointment status.''"
proof -
  have absent: "''99'' \<notin> id' ` set (appointments (sample_state mockAppointments))"
    by (simp add: sample_state_def mockAppointments_def)
  have rejected: "\<not> fst (update memory_store ''99'' (StatusOnly ''completed'') mockAppointments)"
    by (simp add: memory_store_def mockAppointments_def)
  have same: "appointments (sample_state mockAppointments) = mockAppointments"
    by (simp add: sample_state_def)
  show ?thesis
    using status_change_absent_id [OF absent, of "''completed''" "()" memory_store mockAppointments]
      absent rejected same
    by simp
qed

text \<open>
  The failure that C4 claims does not happen on mock data: id \<open>99\<close> is absent, and after
  \<^verbatim>\<open>handleStatusChange('99', 'completed')\<close> the error message is still empty; the state is
  the one before the call.
\<close>

theorem status_change_absent_id_counterexample:
  "''99'' \<notin> id' ` set (appointments (sample_state mockAppointments)) \<and>
   error (sample_state mockAppointments) = [] \<and>
   error (fst (handleStatusChange (None :: unit electron_api option) ''99'' ''completed''
       (sample_state mockAppointments, ()))) = [] \<and>
   fst (handleStatusChange (None :: unit electron_api option) ''99'' ''completed''
       (sample_state mockAppointments, ())) = sample_state mockAppointments"
  by (simp add: handleStatusChange_def sample_state_def initial_state_def mockAppointments_def)

text \<open>
  C5. With the key \<open>all\<close> the \<^verbatim>\<open>switch\<close> selects the whole collection, the list shown is a
  rearrangement of the collection (the sort that follows only reorders), and it is the
  very array held in \<^verbatim>\<open>appointments\<close> after the call. A key outside \<open>all\<close>, \<open>today\<close>,
  \<open>upcoming\<close>, \<open>past\<close>, \<open>scheduled\<close>, \<open>completed\<close>, \<open>cancelled\<close> selects and shows what \<open>all\<close>
  does.
\<close>

theorem filter_all_identity:
  "select_appointments c ''all'' xs = xs \<and>
   mset (shown c ''all'' s) = mset (appointments s) \<and>
   filteredAppointments (filterAppointments c (s\<lparr>filter' := ''all''\<rparr>)) =
     appointments (filterAppointments c (s\<lparr>filter' := ''all''\<rparr>)) \<and>
   (k \<notin> set (''all'' # filtering_keys) \<longrightarrow>
      select_appointments c k xs = select_appointments c ''all'' xs \<and>
      shown c k s = shown c ''all'' s)"
proof -
  have all_key: "''all'' \<notin> set filtering_keys"
    by (simp add: filtering_keys_def)
  have selected: "select_appointments c ''all'' ys = ys" for ys
    by (rule select_unknown [OF all_key])
  have permuted: "mset (shown c ''all'' s) = mset (appointments s)"
    by (simp add: mset_shown selected)
  have same_array: "filteredAppointments (filterAppointments c (s\<lparr>filter' := ''all''\<rparr>)) =
      appointments (filterAppointments c (s\<lparr>filter' := ''all''\<rparr>))"
    using all_key by (simp add: filterAppointments_def Let_def)
  have fallback: "select_appointments c k xs = select_appointments c ''all'' xs \<and>
      shown c k s = shown c ''all'' s"
    if "k \<notin> set (''all'' # filtering_keys)"
  proof -
    from that have "k \<notin> set filtering_keys" by simp
    then have "select_appointments c k ys = ys" for ys
      by (rule select_unknown)
    then show ?thesis
      by (simp add: shown_eq selected)
  qed
  from selected permuted same_array fallback show ?thesis by blast
qed

text \<open>
  C5 at the unknown key \<open>tomorrow\<close>, on the two mock records.
\<close>

theorem filter_all_identity_witness:
  "''tomorrow'' \<notin> set (''all'' # filtering_keys) \<and>
   select_appointments (wall_clock 0 (days_from_civil 2024 2 25) 0) ''tomorrow'' mockAppointments =
     mockAppointments \<and>
   shown (wall_clock 0 (days_from_civil 2024 2 25) 0) ''tomorrow'' (sample_state mockAppointments) =
     shown (wall_clock 0 (days_from_civil 2024 2 25) 0) ''all'' (sample_state mockAppointments)"
proof -
  have unknown: "''tomorrow'' \<notin> set (''all'' # filtering_keys)"
    by (simp add: filtering_keys_def)
  show ?thesis
    using filter_all_identity [of "wall_clock 0 (days_from_civil 2024 2 25) 0" mockAppointments
        "sample_state mockAppointments" "''tomorrow''"] unknown
    by simp
qed

text \<open>
  C6. The Missed counter equals the size of the intersection of what the \<open>past\<close> filter
  and the \<open>scheduled\<close> filter show (as collections with multiplicity), for every
  collection and clock.
\<close>

theorem missed_count_is_past_and_scheduled:
  "missedCount c (appointments s) =
     size (mset (shown c ''past'' s) \<inter># mset (shown c ''scheduled'' s))"
proof -
  let ?M = "mset (appointments s)"
  have "mset (shown c ''past'' s) = filter_mset (in_past c) ?M"
    by (simp add: mset_shown select_appointments_def)
  moreover have "mset (shown c ''scheduled'' s) = filter_mset (\<lambda>apt. status apt = ''scheduled'') ?M"
    by (simp add: mset_shown select_appointments_def)
  moreover have "filter_mset (in_past c) ?M \<inter># filter_mset (\<lambda>apt. status apt = ''scheduled'') ?M
      = filter_mset (\<lambda>apt. in_past c apt \<and> status apt = ''scheduled'') ?M"
    by (rule multiset_eqI) simp
  moreover have "missedCount c (appointments s) =
      size (filter_mset (\<lambda>apt. in_past c apt \<and> status apt = ''scheduled'') ?M)"
    by (simp add: missedCount_def in_past_def conj_assoc flip: size_mset mset_filter)
  ultimately show ?thesis by simp
qed

text \<open>
  C7. For each of the keys \<open>scheduled\<close>, \<open>completed\<close>, \<open>cancelled\<close> the filter keeps exactly
  the appointments whose stored status is the key, whatever the clock. A scheduled
  appointment in Past, whose label is \<open>Missed\<close>, is shown under \<open>scheduled\<close>. Scenario D: of
  one scheduled and one completed appointment, in either order and with any dates, the
  \<open>scheduled\<close> filter shows the scheduled one alone.
\<close>

theorem status_filter_matches_raw_status:
  "(k = ''scheduled'' \<or> k = ''completed'' \<or> k = ''cancelled'' \<longrightarrow>
      select_appointments c k xs = filter (\<lambda>apt. status apt = k) xs \<and>
      mset (shown c k s) = filter_mset (\<lambda>apt. status apt = k) (mset (appointments s))) \<and>
   (apt \<in> set (appointments s) \<and> status apt = ''scheduled'' \<and> in_past c apt \<longrightarrow>
      getStatusDisplayText c (status apt) (appointment_date apt) = ''Missed'' \<and>
      apt \<in> set (shown c ''scheduled'' s)) \<and>
   shown c ''scheduled''
       (s\<lparr>appointments := [a\<lparr>status := ''scheduled''\<rparr>, b\<lparr>status := ''completed''\<rparr>]\<rparr>) =
     [a\<lparr>status := ''scheduled''\<rparr>] \<and>
   shown c ''scheduled''
       (s\<lparr>appointments := [b\<lparr>status := ''completed''\<rparr>, a\<lparr>status := ''scheduled''\<rparr>]\<rparr>) =
     [a\<lparr>status := ''scheduled''\<rparr>]"
proof -
  have by_status: "select_appointments c k xs = filter (\<lambda>apt. status apt = k) xs"
    if "k = ''scheduled'' \<or> k = ''completed'' \<or> k = ''cancelled''" for k xs
    using that by (auto simp: select_appointments_def)
  have shown_status: "mset (shown c k s) = filter_mset (\<lambda>apt. status apt = k) (mset (appointments s))"
    if "k = ''scheduled'' \<or> k = ''completed'' \<or> k = ''cancelled''" for k
    by (simp add: mset_shown by_status [OF that])
  have missed: "getStatusDisplayText c (status apt) (appointment_date apt) = ''Missed'' \<and>
      apt \<in> set (shown c ''scheduled'' s)"
    if "apt \<in> set (appointments s) \<and> status apt = ''scheduled'' \<and> in_past c apt"
    using that
    by (simp add: getStatusDisplayText_def in_past_def shown_eq set_array_sort by_status)
  have scenario: "shown c ''scheduled''
       (s\<lparr>appointments := [a\<lparr>status := ''scheduled''\<rparr>, b\<lparr>status := ''completed''\<rparr>]\<rparr>) =
     [a\<lparr>status := ''scheduled''\<rparr>]"
    "shown c ''scheduled''
       (s\<lparr>appointments := [b\<lparr>status := ''completed''\<rparr>, a\<lparr>status := ''scheduled''\<rparr>]\<rparr>) =
     [a\<lparr>status := ''scheduled''\<rparr>]"
    by (simp_all add: shown_eq by_status)
  show ?thesis
    using by_status shown_status missed scenario by blast
qed

text \<open>
  C7 at a collection of one scheduled appointment five days in the past and one
  completed appointment.
\<close>

theorem status_filter_matches_raw_status_witness:
  "sample_appointment ''1'' (days_from_civil 2024 2 20) (9 * 60) ''scheduled'' \<in>
     set (appointments (sample_state
       [sample_appointment ''1'' (days_from_civil 2024 2 20) (9 * 60) ''scheduled'',
        sample_appointment ''2'' (days_from_civil 2024 2 20) (9 * 60) ''completed''])) \<and>
   in_past (wall_clock 0 (days_from_civil 2024 2 25) 0)
     (sample_appointment ''1'' (days_from_civil 2024 2 20) (9 * 60) ''scheduled'') \<and>
   getStatusDisplayText (wall_clock 0 (days_from_civil 2024 2 25) 0) ''scheduled''
     (days_from_civil 2024 2 20) = ''Missed'' \<and>
   sample_appointment ''1'' (days_from_civil 2024 2 20) (9 * 60) ''scheduled'' \<in>
     set (shown (wall_clock 0 (days_from_civil 2024 2 25) 0) ''scheduled'' (sample_state
       [sample_appointment ''1'' (days_from_civil 2024 2 20) (9 * 60) ''scheduled'',
        sample_appointment ''2'' (days_from_civil 2024 2 20) (9 * 60) ''completed''])) \<and>
   select_appointments (wall_clock 0 (days_from_civil 2024 2 25) 0) ''scheduled''
       [sample_appointment ''1'' (days_from_civil 2024 2 20) (9 * 60) ''scheduled'',
        sample_appointment ''2'' (days_from_civil 2024 2 20) (9 * 60) ''completed''] =
     [sample_appointment ''1'' (days_from_civil 2024 2 20) (9 * 60) ''scheduled'']"
proof -
  let ?c = "wall_clock 0 (days_from_civil 2024 2 25) 0"
  let ?a = "sample_appointment ''1'' (days_from_civil 2024 2 20) (9 * 60) ''scheduled''"
  let ?b = "sample_appointment ''2'' (days_from_civil 2024 2 20) (9 * 60) ''completed''"
  have mem: "?a \<in> set (appointments (sample_state [?a, ?b]))"
    by (simp add: sample_state_def)
  have st: "status ?a = ''scheduled''" "status ?b = ''completed''"
    by (simp_all add: sample_appointment_def)
  have past: "in_past ?c ?a"
    by (simp add: wall_clock_def sample_appointment_def days_from_civil_def in_past_def
        isToday_def isSameDay_def isPast_def local_day_def new_Date_def ms_per_day_def
        ms_per_minute_def)
  have date: "appointment_date ?a = days_from_civil 2024 2 20"
    by (simp add: sample_appointment_def)
  note inst = status_filter_matches_raw_status [of "''scheduled''" ?c "[?a, ?b]" "sample_state [?a, ?b]" ?a]
  show ?thesis
    using inst mem st past date by simp
qed

text \<open>
  C8. The claim: every appointment that the \<open>today\<close> filter shows is shown by the
  \<open>upcoming\<close> filter too, so that an appointment dated today, of any status, appears in
  both results.

  The inclusion holds for every collection and clock (first two parts, as collections
  with multiplicity and as sets). The consequence for an appointment dated today fails
  west of UTC, by the defect of C1. Evaluated here: the wall clock shows 2024-02-20 12:00
  in a zone five hours west of UTC, and the collection holds one completed appointment
  dated 2024-02-20. Its date is the current date, and neither the \<open>today\<close> filter nor the
  \<open>upcoming\<close> filter shows it.
  (\<open>dated_today_east_of_utc\<close> above is that consequence for the zones at or east of UTC.)
\<close>

theorem dated_today_shown_by_neither:
  "mset (shown c ''today'' s) \<subseteq># mset (shown c ''upcoming'' s) \<and>
   set (shown c ''today'' s) \<subseteq> set (shown c ''upcoming'' s) \<and>
   appointment_date (sample_appointment ''1'' (days_from_civil 2024 2 20) (9 * 60) ''completed'') =
     local_day (wall_clock (- 300) (days_from_civil 2024 2 20) (12 * 60))
       (now (wall_clock (- 300) (days_from_civil 2024 2 20) (12 * 60))) \<and>
   sample_appointment ''1'' (days_from_civil 2024 2 20) (9 * 60) ''completed'' \<in>
     set (appointments (sample_state
       [sample_appointment ''1'' (days_from_civil 2024 2 20) (9 * 60) ''completed''])) \<and>
   sample_appointment ''1'' (days_from_civil 2024 2 20) (9 * 60) ''completed'' \<notin>
     set (shown (wall_clock (- 300) (days_from_civil 2024 2 20) (12 * 60)) ''today''
       (sample_state [sample_appointment ''1'' (days_from_civil 2024 2 20) (9 * 60) ''completed''])) \<and>
   sample_appointment ''1'' (days_from_civil 2024 2 20) (9 * 60) ''completed'' \<notin>
     set (shown (wall_clock (- 300) (days_from_civil 2024 2 20) (12 * 60)) ''upcoming''
       (sample_state [sample_appointment ''1'' (days_from_civil 2024 2 20) (9 * 60) ''completed'']))"
proof -
  let ?c = "wall_clock (- 300) (days_from_civil 2024 2 20) (12 * 60)"
  let ?a = "sample_appointment ''1'' (days_from_civil 2024 2 20) (9 * 60) ''completed''"
  have day: "appointment_date ?a = local_day ?c (now ?c)"
    by (simp add: wall_clock_def sample_appointment_def days_from_civil_def local_day_def
        ms_per_day_def ms_per_minute_def)
  have mem: "?a \<in> set (appointments (sample_state [?a]))"
    by (simp add: sample_state_def)
  have today: "\<not> in_today ?c ?a"
    by (simp add: wall_clock_def sample_appointment_def days_from_civil_def in_today_def
        isToday_def isSameDay_def local_day_def new_Date_def ms_per_day_def ms_per_minute_def)
  have upcoming: "\<not> in_upcoming ?c ?a"
    by (simp add: wall_clock_def sample_appointment_def days_from_civil_def in_upcoming_def
        isToday_def isSameDay_def isFuture_def local_day_def new_Date_def ms_per_day_def
        ms_per_minute_def)
  have not_today: "?a \<notin> set (shown ?c ''today'' (sample_state [?a]))"
    using today by (simp add: shown_eq select_appointments_def sample_state_def)
  have not_upcoming: "?a \<notin> set (shown ?c ''upcoming'' (sample_state [?a]))"
    using upcoming by (simp add: shown_eq select_appointments_def sample_state_def)
  from today_subset_upcoming [of c s] day mem not_today not_upcoming show ?thesis
    by blast
qed

text \<open>
  C9. A status change touches the status field alone. On mock data the collection keeps
  its length and order; a record with the id becomes itself with the new status, every
  other field as before; a record with another id is unchanged; the rest of the state and
  the store are unchanged. With a store, for an id found in the snapshot, the object sent
  to \<^verbatim>\<open>update\<close> is the found record with the new status and all its other fields; then the
  collection is reloaded, or on failure kept with an error message.
\<close>

theorem status_change_frame:
  "length (appointments (fst (handleStatusChange None i st (s, db)))) = length (appointments s) \<and>
   (\<forall>n < length (appointments s).
      (id' (appointments s ! n) = i \<longrightarrow>
         appointments (fst (handleStatusChange None i st (s, db))) ! n =
           (appointments s ! n)\<lparr>status := st\<rparr>) \<and>
      (id' (appointments s ! n) \<noteq> i \<longrightarrow>
         appointments (fst (handleStatusChange None i st (s, db))) ! n = appointments s ! n)) \<and>
   fst (handleStatusChange None i st (s, db)) =
     s\<lparr>appointments := appointments (fst (handleStatusChange None i st (s, db)))\<rparr> \<and>
   snd (handleStatusChange None i st (s, db)) = db \<and>
   (find (\<lambda>apt. id' apt = i) (appointments s) = Some r \<longrightarrow>
      id' r = i \<and>
      handleStatusChange (Some a) i st (s, db') =
        (case update a i (FullRecord (r\<lparr>status := st\<rparr>)) db' of
           (True, db2) \<Rightarrow> loadAppointments (Some a) (s, db2)
         | (False, db2) \<Rightarrow> (s\<lparr>error := ''Failed to update appointment status.''\<rparr>, db2)))"
proof -
  have mock: "handleStatusChange None i st (s, db) =
      (s\<lparr>appointments := map (\<lambda>apt. if id' apt = i then apt\<lparr>status := st\<rparr> else apt)
          (appointments s)\<rparr>, db)"
    by (simp add: handleStatusChange_def)
  have found: "id' r = i"
    if "find (\<lambda>apt. id' apt = i) (appointments s) = Some r"
    using that by (auto simp: find_Some_iff)
  show ?thesis
    by (auto simp: mock found handleStatusChange_def update_argument_def)
qed

text \<open>
  C9 at id \<open>1\<close> on the two mock records, on mock data and with the sample store.
\<close>

theorem status_change_frame_witness:
  "(1::nat) < length (appointments (sample_state mockAppointments)) \<and>
   id' (appointments (sample_state mockAppointments) ! 0) = ''1'' \<and>
   id' (appointments (sample_state mockAppointments) ! 1) \<noteq> ''1'' \<and>
   appointments (fst (handleStatusChange None ''1'' ''completed''
       (sample_state mockAppointments, ()))) ! 0 = (mockAppointments ! 0)\<lparr>status := ''completed''\<rparr> \<and>
   appointments (fst (handleStatusChange None ''1'' ''completed''
       (sample_state mockAppointments, ()))) ! 1 = mockAppointments ! 1 \<and>
   find (\<lambda>apt. id' apt = ''1'') (appointments (sample_state mockAppointments)) =
     Some (mockAppointments ! 0) \<and>
   appointments (fst (handleStatusChange (Some memory_store) ''1'' ''completed''
       (sample_state mockAppointments, mockAppointments))) =
     [(mockAppointments ! 0)\<lparr>status := ''completed''\<rparr>, mockAppointments ! 1]"
proof -
  let ?s = "sample_state mockAppointments"
  have xs: "appointments ?s = mockAppointments"
    by (simp add: sample_state_def)
  have len: "(1::nat) < length (appointments ?s)" "(0::nat) < length (appointments ?s)"
    unfolding xs by (simp_all add: mockAppointments_def)
  have ids: "id' (appointments ?s ! 0) = ''1''" "id' (appointments ?s ! 1) \<noteq> ''1''"
    unfolding xs by (simp_all add: mockAppointments_def)
  have found: "find (\<lambda>apt. id' apt = ''1'') (appointments ?s) = Some (mockAppointments ! 0)"
    unfolding xs by (simp add: mockAppointments_def)
  have upd: "update memory_store ''1'' (FullRecord ((mockAppointments ! 0)\<lparr>status := ''completed''\<rparr>))
      mockAppointments =
      (True, [(mockAppointments ! 0)\<lparr>status := ''completed''\<rparr>, mockAppointments ! 1])"
    by (simp add: memory_store_def mockAppointments_def)
  have load: "appointments (fst (loadAppointments (Some memory_store) (?s, db))) = db" for db
    by (simp add: loadAppointments_def memory_store_def)
  note frame = status_change_frame [of "''1''" "''completed''" ?s "()" "mockAppointments ! 0"
      memory_store mockAppointments]
  show ?thesis
    using frame len ids found upd load xs by auto
qed

text \<open>
  C10. The Upcoming counter equals the size of the intersection of what the \<open>upcoming\<close>
  filter and the \<open>scheduled\<close> filter show (as collections with multiplicity), for every
  collection and clock.
\<close>

theorem upcoming_count_is_upcoming_and_scheduled:
  "upcomingScheduledCount c (appointments s) =
     size (mset (shown c ''upcoming'' s) \<inter># mset (shown c ''scheduled'' s))"
proof -
  let ?M = "mset (appointments s)"
  have "mset (shown c ''upcoming'' s) = filter_mset (in_upcoming c) ?M"
    by (simp add: mset_shown select_appointments_def)
  moreover have "mset (shown c ''scheduled'' s) = filter_mset (\<lambda>apt. status apt = ''scheduled'') ?M"
    by (simp add: mset_shown select_appointments_def)
  moreover have "filter_mset (in_upcoming c) ?M \<inter># filter_mset (\<lambda>apt. status apt = ''scheduled'') ?M
      = filter_mset (\<lambda>apt. in_upcoming c apt \<and> status apt = ''scheduled'') ?M"
    by (rule multiset_eqI) simp
  moreover have "upcomingScheduledCount c (appointments s) =
      size (filter_mset (\<lambda>apt. in_upcoming c apt \<and> status apt = ''scheduled'') ?M)"
    by (simp add: upcomingScheduledCount_def in_upcoming_def flip: size_mset mset_filter)
  ultimately show ?thesis by simp
qed

end
